theory Spec2Isabelle
  imports Complex_Main
begin

section \<open>Python values and exceptions\<close>

text \<open>
  The values the module handles without inspecting them: what \<^verbatim>\<open>json.loads\<close> returns and
  what \<^verbatim>\<open>dict.get\<close> hands on. A dict is an association list read with \<open>map_of\<close>; its keys
  are strings, as JSON object keys are. Floats are only carried, never computed with.
\<close>

datatype pyval =
    PNone
  | PBool bool
  | PInt int
  | PFloat real
  | PStr string
  | PList "pyval list"
  | PDict "(string \<times> pyval) list"

text \<open>
  Every \<^verbatim>\<open>raise\<close> of the module and of the calls it makes is a value. \<open>EnumValueError v n\<close> is
  the \<^verbatim>\<open>ValueError\<close> of an \<^verbatim>\<open>Enum\<close> lookup ("v is not a valid n"); \<open>AttributeError\<close> names
  the missing attribute; \<open>JSONDecodeError\<close> and \<open>TimeoutError\<close> are there for the library
  calls the module makes.
\<close>

datatype error =
    AssertionError string
  | Exception string
  | ValueError string
  | EnumValueError pyval string
  | AttributeError string
  | JSONDecodeError string
  | TimeoutError string

text \<open>
  Statements run in order and the first exception ends the function: \<open>and_then r k\<close> runs
  \<open>k\<close> on the value of \<open>r\<close>, or passes the exception of \<open>r\<close> on.
\<close>

definition and_then :: "error + 'a \<Rightarrow> ('a \<Rightarrow> error + 'b) \<Rightarrow> error + 'b" where
  "and_then r k = (case r of Inl e \<Rightarrow> Inl e | Inr v \<Rightarrow> k v)"

text \<open>\<^verbatim>\<open>d.get(key, default)\<close>: only a dict has the method.\<close>

definition py_get :: "pyval \<Rightarrow> string \<Rightarrow> pyval \<Rightarrow> error + pyval" where
  "py_get d key dflt =
     (case d of
        PDict kvs \<Rightarrow> (case map_of kvs key of None \<Rightarrow> Inr dflt | Some v \<Rightarrow> Inr v)
      | _ \<Rightarrow> Inl (AttributeError ''get''))"

section \<open>The enumerations\<close>

datatype PurchaseStatus = PENDING | PURCHASED | ERROR | RESTORED | CANCELED

fun PurchaseStatus_value :: "PurchaseStatus \<Rightarrow> string" where
  "PurchaseStatus_value PENDING = ''pending''"
| "PurchaseStatus_value PURCHASED = ''purchased''"
| "PurchaseStatus_value ERROR = ''error''"
| "PurchaseStatus_value RESTORED = ''restored''"
| "PurchaseStatus_value CANCELED = ''canceled''"

definition PurchaseStatus_members :: "PurchaseStatus list" where
  "PurchaseStatus_members = [PENDING, PURCHASED, ERROR, RESTORED, CANCELED]"

text \<open>
  \<^verbatim>\<open>PurchaseStatus(v)\<close>: the member whose value equals \<open>v\<close>, and \<^verbatim>\<open>ValueError\<close> when there is
  none. The class defines no \<^verbatim>\<open>_missing_\<close> hook.
\<close>

definition PurchaseStatus_call :: "pyval \<Rightarrow> error + PurchaseStatus" where
  "PurchaseStatus_call v =
     (case find (\<lambda>m. PStr (PurchaseStatus_value m) = v) PurchaseStatus_members of
        Some m \<Rightarrow> Inr m
      | None \<Rightarrow> Inl (EnumValueError v ''PurchaseStatus''))"

datatype ProductType = CONSUMABLE | NON_CONSUMABLE | SUBSCRIPTION

fun ProductType_value :: "ProductType \<Rightarrow> string" where
  "ProductType_value CONSUMABLE = ''consumable''"
| "ProductType_value NON_CONSUMABLE = ''non_consumable''"
| "ProductType_value SUBSCRIPTION = ''subscription''"

definition ProductType_members :: "ProductType list" where
  "ProductType_members = [CONSUMABLE, NON_CONSUMABLE, SUBSCRIPTION]"

definition ProductType_call :: "pyval \<Rightarrow> error + ProductType" where
  "ProductType_call v =
     (case find (\<lambda>m. PStr (ProductType_value m) = v) ProductType_members of
        Some m \<Rightarrow> Inr m
      | None \<Rightarrow> Inl (EnumValueError v ''ProductType''))"

section \<open>ProductDetails\<close>

text \<open>
  The fields hold whatever the record carried: the annotations of the source are not
  enforced, only \<open>type\<close> goes through the enumeration.
\<close>

record ProductDetails =
  id_pd :: pyval
  title :: pyval
  description :: pyval
  price :: pyval
  raw_price :: pyval
  currency_code :: pyval
  currency_symbol :: pyval
  type_pd :: ProductType

definition ProductDetails_init :: "pyval \<Rightarrow> error + ProductDetails" where
  "ProductDetails_init d =
     and_then (py_get d ''id'' (PStr [])) (\<lambda>v_id.
     and_then (py_get d ''title'' (PStr [])) (\<lambda>v_title.
     and_then (py_get d ''description'' (PStr [])) (\<lambda>v_description.
     and_then (py_get d ''price'' (PStr [])) (\<lambda>v_price.
     and_then (py_get d ''rawPrice'' (PFloat 0)) (\<lambda>v_raw_price.
     and_then (py_get d ''currencyCode'' (PStr [])) (\<lambda>v_code.
     and_then (py_get d ''currencySymbol'' (PStr [])) (\<lambda>v_symbol.
     and_then (py_get d ''type'' (PStr ''consumable'')) (\<lambda>v_type.
     and_then (ProductType_call v_type) (\<lambda>ty.
       Inr \<lparr> id_pd = v_id, title = v_title, description = v_description, price = v_price,
             raw_price = v_raw_price, currency_code = v_code, currency_symbol = v_symbol,
             type_pd = ty \<rparr>)))))))))"

section \<open>PurchaseEvent\<close>

text \<open>
  The framework's event: five fields, copied by the constructor of the subclass. The
  control and the page it refers to are opaque here.
\<close>

record ('c, 'p) ControlEvent =
  target :: string
  name :: string
  data :: string
  control :: 'c
  event_page :: 'p

record ('c, 'p) PurchaseEvent = "('c, 'p) ControlEvent" +
  product_id :: pyval
  status :: PurchaseStatus
  transaction_id :: pyval
  error_message :: pyval

text \<open>
  \<^verbatim>\<open>PurchaseEvent(e)\<close>. The parser \<^verbatim>\<open>json.loads\<close> is the standard library's, so it is the
  parameter \<open>loads\<close>: any function from the payload text to a value or an exception.
\<close>

definition PurchaseEvent_init ::
  "(string \<Rightarrow> error + pyval) \<Rightarrow> ('c, 'p) ControlEvent \<Rightarrow> error + ('c, 'p) PurchaseEvent" where
  "PurchaseEvent_init loads e =
     and_then (loads (data e)) (\<lambda>d.
     and_then (py_get d ''productId'' (PStr [])) (\<lambda>v_product.
     and_then (py_get d ''status'' (PStr ''error'')) (\<lambda>v_status.
     and_then (PurchaseStatus_call v_status) (\<lambda>st.
     and_then (py_get d ''transactionId'' (PStr [])) (\<lambda>v_transaction.
     and_then (py_get d ''errorMessage'' PNone) (\<lambda>v_message.
       Inr \<lparr> target = target e, name = name e, data = data e, control = control e,
             event_page = event_page e,
             product_id = v_product, status = st, transaction_id = v_transaction,
             error_message = v_message \<rparr>))))))"

section \<open>The InAppPurchase control\<close>

text \<open>
  Modelled from the spec: the platform enumeration is the UI framework's, outside the
  module. The module names two of its members; every other platform is \<open>OtherPlatform\<close>
  with its name.
\<close>

datatype PagePlatform = ANDROID | IOS | OtherPlatform string

record Page =
  platform :: PagePlatform

text \<open>
  One call of the framework's \<^verbatim>\<open>invoke_method\<close>, which hands a request to the native
  bridge: the method name and the keyword arguments the call site passes (\<open>None\<close> for a
  keyword it leaves out).
\<close>

record invoke_call =
  method_name :: string
  arguments :: "(string \<times> pyval) list option"
  wait_for_result :: "bool option"
  wait_timeout :: "pyval option"

text \<open>
  The control: the page it is attached to (\<open>None\<close> before it is added to one), the
  \<^verbatim>\<open>productIds\<close> attribute (\<open>None\<close> while unset) and the requests handed to
  \<^verbatim>\<open>invoke_method\<close> so far, oldest first.
\<close>

record InAppPurchase =
  page :: "Page option"
  productIds :: "string list option"
  invoked :: "invoke_call list"

text \<open>
  What \<^verbatim>\<open>invoke_method\<close> gives back for a request is up to the framework and the bridge:
  an exception, no result, or a string. It is the parameter \<open>bridge\<close> of every command.
\<close>

type_synonym bridge = "invoke_call \<Rightarrow> error + string option"

definition invoke_method ::
  "bridge \<Rightarrow> InAppPurchase \<Rightarrow> invoke_call \<Rightarrow> (error + string option) \<times> InAppPurchase" where
  "invoke_method bridge self c = (bridge c, self\<lparr>invoked := invoked self @ [c]\<rparr>)"

text \<open>The property \<^verbatim>\<open>product_ids\<close>: the attribute, and \<^verbatim>\<open>[]\<close> while it is unset.\<close>

definition product_ids :: "InAppPurchase \<Rightarrow> string list" where
  "product_ids self = (case productIds self of None \<Rightarrow> [] | Some v \<Rightarrow> v)"

definition set_product_ids :: "InAppPurchase \<Rightarrow> string list option \<Rightarrow> InAppPurchase" where
  "set_product_ids self v = self\<lparr>productIds := v\<rparr>"

definition check_mobile_platform :: "InAppPurchase \<Rightarrow> error + unit" where
  "check_mobile_platform self =
     (case page self of
        None \<Rightarrow> Inl (AssertionError ''InAppPurchase must be added to page first.'')
      | Some pg \<Rightarrow>
          if platform pg \<notin> set [ANDROID, IOS]
          then Inl (Exception ''InAppPurchase is supported on Android and iOS platforms only.'')
          else Inr ())"

text \<open>A call whose result the command drops: only its exception is passed on.\<close>

definition discard :: "(error + 'a) \<times> InAppPurchase \<Rightarrow> (error + unit) \<times> InAppPurchase" where
  "discard rs = (case fst rs of Inl e \<Rightarrow> (Inl e, snd rs) | Inr v \<Rightarrow> (Inr (), snd rs))"

definition initialize :: "bridge \<Rightarrow> InAppPurchase \<Rightarrow> (error + unit) \<times> InAppPurchase" where
  "initialize bridge self =
     (case check_mobile_platform self of
        Inl e \<Rightarrow> (Inl e, self)
      | Inr u \<Rightarrow>
          discard (invoke_method bridge self
            \<lparr> method_name = ''initialize'', arguments = None,
              wait_for_result = None, wait_timeout = None \<rparr>))"

text \<open>
  \<^verbatim>\<open>product_ids or self.product_ids\<close>: the argument when it is truthy (a non-empty list),
  the property otherwise. The argument \<open>None\<close> is Python's \<^verbatim>\<open>None\<close>, the default.
\<close>

definition resolve_ids :: "string list option \<Rightarrow> string list \<Rightarrow> string list" where
  "resolve_ids arg dflt =
     (case arg of None \<Rightarrow> dflt | Some l \<Rightarrow> if l = [] then dflt else l)"

definition query_products ::
  "bridge \<Rightarrow> InAppPurchase \<Rightarrow> string list option \<Rightarrow> (error + unit) \<times> InAppPurchase" where
  "query_products bridge self ids_arg =
     (case check_mobile_platform self of
        Inl e \<Rightarrow> (Inl e, self)
      | Inr u \<Rightarrow>
          (let ids = resolve_ids ids_arg (product_ids self) in
           if ids = [] then (Inl (ValueError ''No product IDs provided''), self)
           else discard (invoke_method bridge self
             \<lparr> method_name = ''query_products'',
               arguments = Some [(''productIds'', PList (map PStr ids))],
               wait_for_result = None, wait_timeout = None \<rparr>)))"

definition buy_product ::
  "bridge \<Rightarrow> InAppPurchase \<Rightarrow> string \<Rightarrow> (error + unit) \<times> InAppPurchase" where
  "buy_product bridge self pid =
     (case check_mobile_platform self of
        Inl e \<Rightarrow> (Inl e, self)
      | Inr u \<Rightarrow>
          discard (invoke_method bridge self
            \<lparr> method_name = ''buy_product'', arguments = Some [(''productId'', PStr pid)],
              wait_for_result = None, wait_timeout = None \<rparr>))"

definition restore_purchases :: "bridge \<Rightarrow> InAppPurchase \<Rightarrow> (error + unit) \<times> InAppPurchase" where
  "restore_purchases bridge self =
     (case check_mobile_platform self of
        Inl e \<Rightarrow> (Inl e, self)
      | Inr u \<Rightarrow>
          discard (invoke_method bridge self
            \<lparr> method_name = ''restore_purchases'', arguments = None,
              wait_for_result = None, wait_timeout = None \<rparr>))"

text \<open>
  \<^verbatim>\<open>get_past_purchases(wait_timeout=10)\<close>: the argument \<open>None\<close> is the keyword left out, so
  the default applies; \<open>Some t\<close> is a supplied value. The result of the call is falsy when
  it is \<^verbatim>\<open>None\<close> or the empty string.
\<close>

definition get_past_purchases ::
  "bridge \<Rightarrow> (string \<Rightarrow> error + pyval) \<Rightarrow> InAppPurchase \<Rightarrow> pyval option
     \<Rightarrow> (error + pyval) \<times> InAppPurchase" where
  "get_past_purchases bridge loads self timeout_arg =
     (case check_mobile_platform self of
        Inl e \<Rightarrow> (Inl e, self)
      | Inr u \<Rightarrow>
          (let rs = invoke_method bridge self
                 \<lparr> method_name = ''get_past_purchases'', arguments = None,
                   wait_for_result = Some True,
                   wait_timeout = Some (case timeout_arg of None \<Rightarrow> PInt 10 | Some t \<Rightarrow> t) \<rparr>
           in (case fst rs of
                 Inl e \<Rightarrow> (Inl e, snd rs)
               | Inr None \<Rightarrow> (Inr (PList []), snd rs)
               | Inr (Some r) \<Rightarrow> (if r = [] then Inr (PList []) else loads r, snd rs))))"

definition finish_transaction ::
  "bridge \<Rightarrow> InAppPurchase \<Rightarrow> string \<Rightarrow> (error + unit) \<times> InAppPurchase" where
  "finish_transaction bridge self tid =
     (case check_mobile_platform self of
        Inl e \<Rightarrow> (Inl e, self)
      | Inr u \<Rightarrow>
          discard (invoke_method bridge self
            \<lparr> method_name = ''finish_transaction'',
              arguments = Some [(''transactionId'', PStr tid)],
              wait_for_result = None, wait_timeout = None \<rparr>))"

section \<open>Collaborators for the examples\<close>

text \<open>
  A parser for the examples below: on each payload text it lists it returns the value
  \<^verbatim>\<open>json.loads\<close> returns there, and it raises on every other text.
\<close>

definition loads_table :: "string \<Rightarrow> error + pyval" where
  "loads_table s =
     (if s = ''[]'' then Inr (PList [])
      else if s = ''{}'' then Inr (PDict [])
      else if s = ''{\"status\": \"purchased\", \"productId\": \"coins\", \"transactionId\": \"t1\"}''
        then Inr (PDict [(''status'', PStr ''purchased''), (''productId'', PStr ''coins''),
                         (''transactionId'', PStr ''t1'')])
      else if s = ''{\"productId\": \"coins\", \"status\": \"refunded\", \"transactionId\": \"t1\"}''
        then Inr (PDict [(''productId'', PStr ''coins''), (''status'', PStr ''refunded''),
                         (''transactionId'', PStr ''t1'')])
      else if s = ''{\"productId\": \"coins\", \"status\": \"PURCHASED\"}''
        then Inr (PDict [(''productId'', PStr ''coins''), (''status'', PStr ''PURCHASED'')])
      else if s = ''[{\"productId\": \"coins\"}]''
        then Inr (PList [PDict [(''productId'', PStr ''coins'')]])
      else if s = ''{\"productId\": \"coins\"}''
        then Inr (PDict [(''productId'', PStr ''coins'')])
      else if s = ''{\"status\": \"refunded\"}''
        then Inr (PDict [(''status'', PStr ''refunded'')])
      else Inl (JSONDecodeError s))"

text \<open>A bridge for the examples: every request gets the same answer \<open>r\<close>.\<close>

definition bridge_returns :: "string option \<Rightarrow> bridge" where
  "bridge_returns r c = Inr r"

text \<open>
  A bridge for the examples: every request ends with the exception \<open>e\<close>. With
  \<open>TimeoutError\<close> it is the framework's \<^verbatim>\<open>invoke_method\<close> when the wait for a result has
  elapsed and none has come.
\<close>

definition bridge_raises :: "error \<Rightarrow> bridge" where
  "bridge_raises e c = Inl e"

section \<open>Decoding a purchase event\<close>

subsection \<open>The enumeration lookup\<close>

lemma PurchaseStatus_call_unrecognized:
  assumes "s \<notin> {''pending'', ''purchased'', ''error'', ''restored'', ''canceled''}"
  shows "PurchaseStatus_call (PStr s) = Inl (EnumValueError (PStr s) ''PurchaseStatus'')"
  using assms by (auto simp add: PurchaseStatus_call_def PurchaseStatus_members_def)

lemma PurchaseStatus_call_value:
  "PurchaseStatus_call (PStr (PurchaseStatus_value st)) = Inr st"
  by (cases st) (simp_all add: PurchaseStatus_call_def PurchaseStatus_members_def)

subsection \<open>Unrecognized status\<close>

text \<open>
  Claim C1, as the code has it. When the payload parses as a record whose \<^verbatim>\<open>status\<close> is a
  string other than the five values of \<^verbatim>\<open>PurchaseStatus\<close>, the constructor does not
  produce an event with status \<open>ERROR\<close>: the enumeration lookup raises \<^verbatim>\<open>ValueError\<close> for
  that string and the constructor passes it on. (The default \<^verbatim>\<open>"error"\<close> stands in for an
  absent key only.)
\<close>

theorem PurchaseEvent_unrecognized_status_raises:
  assumes "loads (data e) = Inr (PDict kvs)"
      and "map_of kvs ''status'' = Some (PStr s)"
      and "s \<notin> {''pending'', ''purchased'', ''error'', ''restored'', ''canceled''}"
  shows "PurchaseEvent_init loads e = Inl (EnumValueError (PStr s) ''PurchaseStatus'')"
  using assms(1,2) PurchaseStatus_call_unrecognized [OF assms(3)]
  by (simp add: PurchaseEvent_init_def and_then_def py_get_def split: option.split)

text \<open>An instance: the status \<^verbatim>\<open>"PURCHASED"\<close>, in capitals, is not a member's value.\<close>

theorem PurchaseEvent_unrecognized_status_raises_witness:
  "PurchaseEvent_init loads_table
     \<lparr> target = ''_7'', name = ''purchase_updated'',
       data = ''{\"productId\": \"coins\", \"status\": \"PURCHASED\"}'',
       control = (), event_page = () \<rparr>
   = Inl (EnumValueError (PStr ''PURCHASED'') ''PurchaseStatus'')"
  by (rule PurchaseEvent_unrecognized_status_raises
        [where kvs = "[(''productId'', PStr ''coins''), (''status'', PStr ''PURCHASED'')]"])
     (simp_all add: loads_table_def)

text \<open>
  The claim as first stated (such a payload decodes to status \<open>ERROR\<close>) fails on a fully
  populated record whose status is \<^verbatim>\<open>"refunded"\<close>.
\<close>

theorem PurchaseEvent_unrecognized_status_counterexample:
  "loads_table ''{\"productId\": \"coins\", \"status\": \"refunded\", \"transactionId\": \"t1\"}''
     = Inr (PDict [(''productId'', PStr ''coins''), (''status'', PStr ''refunded''),
                   (''transactionId'', PStr ''t1'')])
   \<and> PurchaseEvent_init loads_table
     \<lparr> target = ''_7'', name = ''purchase_updated'',
       data = ''{\"productId\": \"coins\", \"status\": \"refunded\", \"transactionId\": \"t1\"}'',
       control = (), event_page = () \<rparr>
   = Inl (EnumValueError (PStr ''refunded'') ''PurchaseStatus'')"
  by (simp add: PurchaseEvent_init_def and_then_def py_get_def loads_table_def
        PurchaseStatus_call_def PurchaseStatus_members_def)

subsection \<open>Missing keys\<close>

text \<open>
  Claim C2, as the code has it. When the payload parses as a record whose \<^verbatim>\<open>status\<close> key is
  absent or holds the value of a \<^verbatim>\<open>PurchaseStatus\<close> member, the constructor succeeds, whatever
  subset of \<^verbatim>\<open>productId\<close>, \<^verbatim>\<open>status\<close>, \<^verbatim>\<open>transactionId\<close>, \<^verbatim>\<open>errorMessage\<close> is
  missing: each missing key gets its default (\<^verbatim>\<open>""\<close>, \<open>ERROR\<close>, \<^verbatim>\<open>""\<close>, \<^verbatim>\<open>None\<close>), each
  present one is passed through, and the five fields of the framework's event are copied.
\<close>

theorem PurchaseEvent_defaults:
  assumes "loads (data e) = Inr (PDict kvs)"
      and "map_of kvs ''status'' = None
           \<or> map_of kvs ''status'' = Some (PStr (PurchaseStatus_value st))"
  shows "PurchaseEvent_init loads e =
           Inr \<lparr> target = target e, name = name e, data = data e, control = control e,
                 event_page = event_page e,
                 product_id = (case map_of kvs ''productId'' of None \<Rightarrow> PStr [] | Some v \<Rightarrow> v),
                 status = (case map_of kvs ''status'' of None \<Rightarrow> ERROR | Some v \<Rightarrow> st),
                 transaction_id =
                   (case map_of kvs ''transactionId'' of None \<Rightarrow> PStr [] | Some v \<Rightarrow> v),
                 error_message =
                   (case map_of kvs ''errorMessage'' of None \<Rightarrow> PNone | Some v \<Rightarrow> v) \<rparr>"
proof -
  have err: "PurchaseStatus_call (PStr ''error'') = Inr ERROR"
    using PurchaseStatus_call_value [of ERROR] by simp
  from assms(2) show ?thesis
  proof
    assume "map_of kvs ''status'' = None"
    with assms(1) err show ?thesis
      by (simp add: PurchaseEvent_init_def and_then_def py_get_def split: option.split)
  next
    assume "map_of kvs ''status'' = Some (PStr (PurchaseStatus_value st))"
    with assms(1) PurchaseStatus_call_value [of st] show ?thesis
      by (simp add: PurchaseEvent_init_def and_then_def py_get_def split: option.split)
  qed
qed

text \<open>Two instances: the empty record, and a record with \<^verbatim>\<open>productId\<close> alone.\<close>

theorem PurchaseEvent_defaults_witness:
  "PurchaseEvent_init loads_table
     \<lparr> target = ''_7'', name = ''purchase_updated'', data = ''{}'',
       control = (), event_page = () \<rparr>
   = Inr \<lparr> target = ''_7'', name = ''purchase_updated'', data = ''{}'',
           control = (), event_page = (),
           product_id = PStr [], status = ERROR, transaction_id = PStr [],
           error_message = PNone \<rparr>
   \<and> PurchaseEvent_init loads_table
     \<lparr> target = ''_7'', name = ''purchase_updated'', data = ''{\"productId\": \"coins\"}'',
       control = (), event_page = () \<rparr>
   = Inr \<lparr> target = ''_7'', name = ''purchase_updated'', data = ''{\"productId\": \"coins\"}'',
           control = (), event_page = (),
           product_id = PStr ''coins'', status = ERROR, transaction_id = PStr [],
           error_message = PNone \<rparr>"
  using PurchaseEvent_defaults
          [of loads_table
              "\<lparr> target = ''_7'', name = ''purchase_updated'', data = ''{}'',
                 control = (), event_page = () \<rparr>" "[]" ERROR]
        PurchaseEvent_defaults
          [of loads_table
              "\<lparr> target = ''_7'', name = ''purchase_updated'',
                 data = ''{\"productId\": \"coins\"}'', control = (), event_page = () \<rparr>"
              "[(''productId'', PStr ''coins'')]" ERROR]
  by (simp add: loads_table_def)

text \<open>
  The claim as first stated (every record that omits some of the keys decodes) fails on
  a record that omits three of them and carries the status \<^verbatim>\<open>"refunded"\<close>.
\<close>

theorem PurchaseEvent_defaults_counterexample:
  "loads_table ''{\"status\": \"refunded\"}'' = Inr (PDict [(''status'', PStr ''refunded'')])
   \<and> PurchaseEvent_init loads_table
     \<lparr> target = ''_7'', name = ''purchase_updated'', data = ''{\"status\": \"refunded\"}'',
       control = (), event_page = () \<rparr>
   = Inl (EnumValueError (PStr ''refunded'') ''PurchaseStatus'')"
  by (simp add: PurchaseEvent_init_def and_then_def py_get_def loads_table_def
        PurchaseStatus_call_def PurchaseStatus_members_def)

section \<open>Constructing ProductDetails\<close>

lemma ProductType_call_unrecognized:
  assumes "v \<notin> {PStr ''consumable'', PStr ''non_consumable'', PStr ''subscription''}"
  shows "ProductType_call v = Inl (EnumValueError v ''ProductType'')"
  using assms by (auto simp add: ProductType_call_def ProductType_members_def)

lemma ProductType_call_consumable: "ProductType_call (PStr ''consumable'') = Inr CONSUMABLE"
  by (simp add: ProductType_call_def ProductType_members_def)

text \<open>
  Claim C3, as the code has it. For a product record, \<^verbatim>\<open>ProductDetails\<close> is constructed with
  type \<open>CONSUMABLE\<close>, without raising, when the \<^verbatim>\<open>type\<close> key is absent. When the key holds
  a value that is not the value of a \<^verbatim>\<open>ProductType\<close> member, the construction raises the
  \<^verbatim>\<open>ValueError\<close> of the enumeration lookup, so that record is not decoded.
\<close>

theorem ProductDetails_type:
  "(map_of kvs ''type'' = None \<longrightarrow>
      (\<exists>pd. ProductDetails_init (PDict kvs) = Inr pd \<and> type_pd pd = CONSUMABLE))
   \<and> (\<forall>v. map_of kvs ''type'' = Some v
           \<and> v \<notin> {PStr ''consumable'', PStr ''non_consumable'', PStr ''subscription''} \<longrightarrow>
         ProductDetails_init (PDict kvs) = Inl (EnumValueError v ''ProductType''))"
proof (intro conjI impI allI)
  assume "map_of kvs ''type'' = None"
  then show "\<exists>pd. ProductDetails_init (PDict kvs) = Inr pd \<and> type_pd pd = CONSUMABLE"
    using ProductType_call_consumable
    by (simp add: ProductDetails_init_def and_then_def py_get_def split: option.split)
next
  fix v
  assume "map_of kvs ''type'' = Some v
          \<and> v \<notin> {PStr ''consumable'', PStr ''non_consumable'', PStr ''subscription''}"
  then show "ProductDetails_init (PDict kvs) = Inl (EnumValueError v ''ProductType'')"
    using ProductType_call_unrecognized [of v]
    by (simp add: ProductDetails_init_def and_then_def py_get_def split: option.split)
qed

text \<open>Two instances: a record without \<^verbatim>\<open>type\<close>, and one whose type is \<^verbatim>\<open>"Subscription"\<close>.\<close>

theorem ProductDetails_type_witness:
  "(\<exists>pd. ProductDetails_init (PDict [(''id'', PStr ''coins''), (''title'', PStr ''Coins'')]) = Inr pd
         \<and> type_pd pd = CONSUMABLE)
   \<and> ProductDetails_init (PDict [(''id'', PStr ''gems''), (''type'', PStr ''Subscription'')])
       = Inl (EnumValueError (PStr ''Subscription'') ''ProductType'')"
  using ProductDetails_type [of "[(''id'', PStr ''coins''), (''title'', PStr ''Coins'')]"]
        ProductDetails_type [of "[(''id'', PStr ''gems''), (''type'', PStr ''Subscription'')]"]
  by simp

text \<open>
  The claim as first stated (an unrecognized type yields \<open>CONSUMABLE\<close>) fails on a record
  whose type is \<^verbatim>\<open>"bundle"\<close>.
\<close>

theorem ProductDetails_type_counterexample:
  "ProductDetails_init (PDict [(''id'', PStr ''coins''), (''price'', PStr ''$0.99''),
                               (''type'', PStr ''bundle'')])
   = Inl (EnumValueError (PStr ''bundle'') ''ProductType'')"
  by (simp add: ProductDetails_init_def and_then_def py_get_def
        ProductType_call_def ProductType_members_def)

section \<open>The commands\<close>

subsection \<open>The platform guard\<close>

lemma check_mobile_platform_fails:
  assumes "page self = None
           \<or> (\<exists>pg. page self = Some pg \<and> platform pg \<noteq> ANDROID \<and> platform pg \<noteq> IOS)"
  shows "check_mobile_platform self =
           Inl (case page self of
                  None \<Rightarrow> AssertionError ''InAppPurchase must be added to page first.''
                | Some pg \<Rightarrow>
                    Exception ''InAppPurchase is supported on Android and iOS platforms only.'')"
  using assms by (auto simp add: check_mobile_platform_def)

text \<open>
  Claim C4. When the control is not attached to a page, or the page's platform is neither
  Android nor iOS, each of the six commands raises (the \<^verbatim>\<open>AssertionError\<close> of the guard in
  the first case, its \<^verbatim>\<open>Exception\<close> in the second) and leaves the control as it was: no
  request is handed to \<^verbatim>\<open>invoke_method\<close>.
\<close>

theorem commands_blocked_by_platform_guard:
  assumes "page self = None
           \<or> (\<exists>pg. page self = Some pg \<and> platform pg \<noteq> ANDROID \<and> platform pg \<noteq> IOS)"
  shows "(let err = (case page self of
                       None \<Rightarrow> AssertionError ''InAppPurchase must be added to page first.''
                     | Some pg \<Rightarrow>
                         Exception ''InAppPurchase is supported on Android and iOS platforms only.'')
          in initialize bridge self = (Inl err, self)
           \<and> query_products bridge self ids_arg = (Inl err, self)
           \<and> buy_product bridge self pid = (Inl err, self)
           \<and> restore_purchases bridge self = (Inl err, self)
           \<and> get_past_purchases bridge loads self timeout_arg = (Inl err, self)
           \<and> finish_transaction bridge self tid = (Inl err, self))"
  using check_mobile_platform_fails [OF assms]
  by (simp add: Let_def initialize_def query_products_def buy_product_def
        restore_purchases_def get_past_purchases_def finish_transaction_def)

text \<open>Instances: a control with no page, and one on a desktop platform.\<close>

theorem commands_blocked_by_platform_guard_witness:
  "initialize (bridge_returns None) \<lparr> page = None, productIds = Some [''a''], invoked = [] \<rparr>
     = (Inl (AssertionError ''InAppPurchase must be added to page first.''),
        \<lparr> page = None, productIds = Some [''a''], invoked = [] \<rparr>)
   \<and> get_past_purchases (bridge_returns (Some ''[]'')) loads_table
        \<lparr> page = Some \<lparr> platform = OtherPlatform ''windows'' \<rparr>, productIds = Some [''a''],
          invoked = [] \<rparr> None
     = (Inl (Exception ''InAppPurchase is supported on Android and iOS platforms only.''),
        \<lparr> page = Some \<lparr> platform = OtherPlatform ''windows'' \<rparr>, productIds = Some [''a''],
          invoked = [] \<rparr>)
   \<and> query_products (bridge_returns None)
        \<lparr> page = Some \<lparr> platform = OtherPlatform ''windows'' \<rparr>, productIds = Some [''a''],
          invoked = [] \<rparr> (Some [''b''])
     = (Inl (Exception ''InAppPurchase is supported on Android and iOS platforms only.''),
        \<lparr> page = Some \<lparr> platform = OtherPlatform ''windows'' \<rparr>, productIds = Some [''a''],
          invoked = [] \<rparr>)"
  using commands_blocked_by_platform_guard
          [of "\<lparr> page = None, productIds = Some [''a''], invoked = [] \<rparr>"
              "bridge_returns None" None "''a''" loads_table None "''t1''"]
        commands_blocked_by_platform_guard
          [of "\<lparr> page = Some \<lparr> platform = OtherPlatform ''windows'' \<rparr>,
                 productIds = Some [''a''], invoked = [] \<rparr>"
              "bridge_returns (Some ''[]'')" "Some [''b'']" "''a''" loads_table None "''t1''"]
        commands_blocked_by_platform_guard
          [of "\<lparr> page = Some \<lparr> platform = OtherPlatform ''windows'' \<rparr>,
                 productIds = Some [''a''], invoked = [] \<rparr>"
              "bridge_returns None" "Some [''b'']" "''a''" loads_table None "''t1''"]
  by (simp add: Let_def)

subsection \<open>Querying products\<close>

text \<open>
  Claim C5. With no default product IDs configured, \<^verbatim>\<open>query_products\<close> called with an empty
  list or with no list raises and hands no request to \<^verbatim>\<open>invoke_method\<close>. The exception is
  \<^verbatim>\<open>ValueError("No product IDs provided")\<close> whenever the platform guard passes, and the
  guard's own exception otherwise.
\<close>

theorem query_products_without_ids:
  assumes "product_ids self = []"
      and "ids_arg = None \<or> ids_arg = Some []"
  shows "query_products bridge self ids_arg =
           (Inl (case check_mobile_platform self of
                   Inl e \<Rightarrow> e
                 | Inr u \<Rightarrow> ValueError ''No product IDs provided''), self)"
  using assms by (auto simp add: query_products_def resolve_ids_def split: sum.split)

text \<open>An instance: an attached Android control without default IDs, called with \<^verbatim>\<open>[]\<close>.\<close>

theorem query_products_without_ids_witness:
  "check_mobile_platform \<lparr> page = Some \<lparr> platform = ANDROID \<rparr>, productIds = None, invoked = [] \<rparr>
     = Inr ()
   \<and> query_products (bridge_returns None)
        \<lparr> page = Some \<lparr> platform = ANDROID \<rparr>, productIds = None, invoked = [] \<rparr> (Some [])
     = (Inl (ValueError ''No product IDs provided''),
        \<lparr> page = Some \<lparr> platform = ANDROID \<rparr>, productIds = None, invoked = [] \<rparr>)"
  using query_products_without_ids
          [of "\<lparr> page = Some \<lparr> platform = ANDROID \<rparr>, productIds = None, invoked = [] \<rparr>"
              "Some []" "bridge_returns None"]
  by (simp add: product_ids_def check_mobile_platform_def)

subsection \<open>Past purchases: no result\<close>

text \<open>
  Claim C6, as the code has it. When the platform guard passes, \<^verbatim>\<open>get_past_purchases\<close> hands
  \<^verbatim>\<open>invoke_method\<close> one request, which asks to wait for the result with the caller's
  timeout, 10 when the caller gives none. When \<^verbatim>\<open>invoke_method\<close> comes back with no result,
  the call returns the empty list. When \<^verbatim>\<open>invoke_method\<close> raises, as the framework's does
  with \<^verbatim>\<open>TimeoutError\<close> once the wait has elapsed without a result, the call raises the same
  exception: no handler stands around the request.
\<close>

theorem get_past_purchases_no_result_or_raise:
  assumes "check_mobile_platform self = Inr ()"
      and "c = \<lparr> method_name = ''get_past_purchases'', arguments = None,
                 wait_for_result = Some True,
                 wait_timeout = Some (case timeout_arg of None \<Rightarrow> PInt 10 | Some t \<Rightarrow> t) \<rparr>"
  shows "(bridge c = Inr None \<longrightarrow>
            get_past_purchases bridge loads self timeout_arg =
              (Inr (PList []), self\<lparr>invoked := invoked self @ [c]\<rparr>))
       \<and> (\<forall>e. bridge c = Inl e \<longrightarrow>
            get_past_purchases bridge loads self timeout_arg =
              (Inl e, self\<lparr>invoked := invoked self @ [c]\<rparr>))"
  using assms by (simp add: get_past_purchases_def invoke_method_def Let_def)

text \<open>
  Three instances: no result under the default timeout, no result under a timeout of 3,
  and an elapsed wait under a timeout of 3.
\<close>

theorem get_past_purchases_no_result_or_raise_witness:
  "get_past_purchases (bridge_returns None) loads_table
      \<lparr> page = Some \<lparr> platform = IOS \<rparr>, productIds = None, invoked = [] \<rparr> None
     = (Inr (PList []),
        \<lparr> page = Some \<lparr> platform = IOS \<rparr>, productIds = None,
          invoked = [\<lparr> method_name = ''get_past_purchases'', arguments = None,
                       wait_for_result = Some True, wait_timeout = Some (PInt 10) \<rparr>] \<rparr>)
   \<and> get_past_purchases (bridge_returns None) loads_table
      \<lparr> page = Some \<lparr> platform = IOS \<rparr>, productIds = None, invoked = [] \<rparr> (Some (PInt 3))
     = (Inr (PList []),
        \<lparr> page = Some \<lparr> platform = IOS \<rparr>, productIds = None,
          invoked = [\<lparr> method_name = ''get_past_purchases'', arguments = None,
                       wait_for_result = Some True, wait_timeout = Some (PInt 3) \<rparr>] \<rparr>)
   \<and> get_past_purchases
      (bridge_raises (TimeoutError ''Timeout waiting for invokeMethod get_past_purchases(None) call''))
      loads_table
      \<lparr> page = Some \<lparr> platform = IOS \<rparr>, productIds = None, invoked = [] \<rparr> (Some (PInt 3))
     = (Inl (TimeoutError ''Timeout waiting for invokeMethod get_past_purchases(None) call''),
        \<lparr> page = Some \<lparr> platform = IOS \<rparr>, productIds = None,
          invoked = [\<lparr> method_name = ''get_past_purchases'', arguments = None,
                       wait_for_result = Some True, wait_timeout = Some (PInt 3) \<rparr>] \<rparr>)"
  using get_past_purchases_no_result_or_raise
          [of "\<lparr> page = Some \<lparr> platform = IOS \<rparr>, productIds = None, invoked = [] \<rparr>"
              "\<lparr> method_name = ''get_past_purchases'', arguments = None,
                 wait_for_result = Some True, wait_timeout = Some (PInt 10) \<rparr>"
              None "bridge_returns None" loads_table]
        get_past_purchases_no_result_or_raise
          [of "\<lparr> page = Some \<lparr> platform = IOS \<rparr>, productIds = None, invoked = [] \<rparr>"
              "\<lparr> method_name = ''get_past_purchases'', arguments = None,
                 wait_for_result = Some True, wait_timeout = Some (PInt 3) \<rparr>"
              "Some (PInt 3)" "bridge_returns None" loads_table]
        get_past_purchases_no_result_or_raise
          [of "\<lparr> page = Some \<lparr> platform = IOS \<rparr>, productIds = None, invoked = [] \<rparr>"
              "\<lparr> method_name = ''get_past_purchases'', arguments = None,
                 wait_for_result = Some True, wait_timeout = Some (PInt 3) \<rparr>"
              "Some (PInt 3)"
              "bridge_raises
                 (TimeoutError ''Timeout waiting for invokeMethod get_past_purchases(None) call'')"
              loads_table]
  by (simp add: check_mobile_platform_def bridge_returns_def bridge_raises_def)

text \<open>
  The claim as first stated (no result within the wait budget gives the empty list and
  no exception) fails on a bridge that does not answer within the default wait:
  \<^verbatim>\<open>invoke_method\<close> raises \<^verbatim>\<open>TimeoutError\<close>, and so does the call.
\<close>

theorem get_past_purchases_timeout_counterexample:
  "bridge_raises (TimeoutError ''Timeout waiting for invokeMethod get_past_purchases(None) call'')
      \<lparr> method_name = ''get_past_purchases'', arguments = None,
        wait_for_result = Some True, wait_timeout = Some (PInt 10) \<rparr>
     = Inl (TimeoutError ''Timeout waiting for invokeMethod get_past_purchases(None) call'')
   \<and> get_past_purchases
      (bridge_raises (TimeoutError ''Timeout waiting for invokeMethod get_past_purchases(None) call''))
      loads_table
      \<lparr> page = Some \<lparr> platform = ANDROID \<rparr>, productIds = None, invoked = [] \<rparr> None
     = (Inl (TimeoutError ''Timeout waiting for invokeMethod get_past_purchases(None) call''),
        \<lparr> page = Some \<lparr> platform = ANDROID \<rparr>, productIds = None,
          invoked = [\<lparr> method_name = ''get_past_purchases'', arguments = None,
                       wait_for_result = Some True, wait_timeout = Some (PInt 10) \<rparr>] \<rparr>)"
  by (simp add: get_past_purchases_def invoke_method_def check_mobile_platform_def
        bridge_raises_def Let_def)

subsection \<open>Querying the default products\<close>

text \<open>
  Claim C7. When the platform guard passes and the configured default list is
  \<^verbatim>\<open>["a", "b"]\<close>, \<^verbatim>\<open>query_products(None)\<close> hands exactly one request to \<^verbatim>\<open>invoke_method\<close>:
  the method \<^verbatim>\<open>query_products\<close> with the argument \<^verbatim>\<open>productIds = ["a", "b"]\<close>. The command
  raises only what \<^verbatim>\<open>invoke_method\<close> raises.
\<close>

theorem query_products_default_ids:
  assumes "check_mobile_platform self = Inr ()"
      and "product_ids self = [''a'', ''b'']"
      and "c = \<lparr> method_name = ''query_products'',
                 arguments = Some [(''productIds'', PList [PStr ''a'', PStr ''b''])],
                 wait_for_result = None, wait_timeout = None \<rparr>"
  shows "query_products bridge self None =
           ((case bridge c of Inl e \<Rightarrow> Inl e | Inr r \<Rightarrow> Inr ()),
            self\<lparr>invoked := invoked self @ [c]\<rparr>)"
  using assms
  by (simp add: query_products_def resolve_ids_def discard_def invoke_method_def
        split: sum.split)

text \<open>An instance: an attached Android control configured with \<^verbatim>\<open>["a", "b"]\<close>.\<close>

theorem query_products_default_ids_witness:
  "query_products (bridge_returns None)
      \<lparr> page = Some \<lparr> platform = ANDROID \<rparr>, productIds = Some [''a'', ''b''], invoked = [] \<rparr>
      None
     = (Inr (),
        \<lparr> page = Some \<lparr> platform = ANDROID \<rparr>, productIds = Some [''a'', ''b''],
          invoked = [\<lparr> method_name = ''query_products'',
                       arguments = Some [(''productIds'', PList [PStr ''a'', PStr ''b''])],
                       wait_for_result = None, wait_timeout = None \<rparr>] \<rparr>)"
  using query_products_default_ids
          [of "\<lparr> page = Some \<lparr> platform = ANDROID \<rparr>, productIds = Some [''a'', ''b''],
                 invoked = [] \<rparr>"
              "\<lparr> method_name = ''query_products'',
                 arguments = Some [(''productIds'', PList [PStr ''a'', PStr ''b''])],
                 wait_for_result = None, wait_timeout = None \<rparr>"
              "bridge_returns None"]
  by (simp add: check_mobile_platform_def product_ids_def bridge_returns_def)

subsection \<open>Round trip of a purchase record\<close>

text \<open>
  Claim C8. When the payload is a serialization of the record with status
  \<^verbatim>\<open>"purchased"\<close>, productId \<^verbatim>\<open>"coins"\<close> and transactionId \<^verbatim>\<open>"t1"\<close>, that is, when the
  parser gives that record back, the constructor yields an event with status \<open>PURCHASED\<close>,
  product_id \<^verbatim>\<open>"coins"\<close>, transaction_id \<^verbatim>\<open>"t1"\<close> and error_message \<^verbatim>\<open>None\<close>.
\<close>

theorem PurchaseEvent_round_trip:
  assumes "loads (data e) =
             Inr (PDict [(''status'', PStr ''purchased''), (''productId'', PStr ''coins''),
                         (''transactionId'', PStr ''t1'')])"
  shows "PurchaseEvent_init loads e =
           Inr \<lparr> target = target e, name = name e, data = data e, control = control e,
                 event_page = event_page e,
                 product_id = PStr ''coins'', status = PURCHASED,
                 transaction_id = PStr ''t1'', error_message = PNone \<rparr>"
  using assms
  by (simp add: PurchaseEvent_init_def and_then_def py_get_def
        PurchaseStatus_call_def PurchaseStatus_members_def)

text \<open>An instance: the text \<^verbatim>\<open>json.dumps\<close> writes for that record.\<close>

theorem PurchaseEvent_round_trip_witness:
  "PurchaseEvent_init loads_table
     \<lparr> target = ''_7'', name = ''purchase_updated'',
       data = ''{\"status\": \"purchased\", \"productId\": \"coins\", \"transactionId\": \"t1\"}'',
       control = (), event_page = () \<rparr>
   = Inr \<lparr> target = ''_7'', name = ''purchase_updated'',
       data = ''{\"status\": \"purchased\", \"productId\": \"coins\", \"transactionId\": \"t1\"}'',
       control = (), event_page = (),
       product_id = PStr ''coins'', status = PURCHASED,
       transaction_id = PStr ''t1'', error_message = PNone \<rparr>"
  using PurchaseEvent_round_trip
          [of loads_table
              "\<lparr> target = ''_7'', name = ''purchase_updated'',
                 data = ''{\"status\": \"purchased\", \"productId\": \"coins\", \"transactionId\": \"t1\"}'',
                 control = (), event_page = () \<rparr>"]
  by (simp add: loads_table_def)

subsection \<open>The empty list and None\<close>

text \<open>
  Claim C9. \<^verbatim>\<open>query_products([])\<close> does what \<^verbatim>\<open>query_products(None)\<close> does: after the
  platform guard, both fall back to the configured default product IDs, raise the
  \<^verbatim>\<open>ValueError\<close> when that default is empty too, and otherwise send the default list.
\<close>

theorem query_products_empty_list_as_None:
  "query_products bridge self (Some []) = query_products bridge self None
   \<and> query_products bridge self None =
       (case check_mobile_platform self of
          Inl e \<Rightarrow> (Inl e, self)
        | Inr u \<Rightarrow>
            if product_ids self = [] then (Inl (ValueError ''No product IDs provided''), self)
            else discard (invoke_method bridge self
                   \<lparr> method_name = ''query_products'',
                     arguments = Some [(''productIds'', PList (map PStr (product_ids self)))],
                     wait_for_result = None, wait_timeout = None \<rparr>))"
  by (simp add: query_products_def resolve_ids_def split: sum.split)

text \<open>An instance: with the default \<^verbatim>\<open>["a"]\<close>, \<^verbatim>\<open>query_products([])\<close> sends \<^verbatim>\<open>["a"]\<close>.\<close>

theorem query_products_empty_list_as_None_witness:
  "query_products (bridge_returns None)
      \<lparr> page = Some \<lparr> platform = IOS \<rparr>, productIds = Some [''a''], invoked = [] \<rparr> (Some [])
     = (Inr (),
        \<lparr> page = Some \<lparr> platform = IOS \<rparr>, productIds = Some [''a''],
          invoked = [\<lparr> method_name = ''query_products'',
                       arguments = Some [(''productIds'', PList [PStr ''a''])],
                       wait_for_result = None, wait_timeout = None \<rparr>] \<rparr>)"
  using query_products_empty_list_as_None
          [of "bridge_returns None"
              "\<lparr> page = Some \<lparr> platform = IOS \<rparr>, productIds = Some [''a''], invoked = [] \<rparr>"]
  by (simp add: check_mobile_platform_def product_ids_def bridge_returns_def discard_def
        invoke_method_def)

subsection \<open>Past purchases: the result\<close>

text \<open>
  Claim C10, as the code has it. When the platform guard passes, \<^verbatim>\<open>get_past_purchases\<close>
  returns the empty list, without calling the parser, when the result of \<^verbatim>\<open>invoke_method\<close>
  is absent or the empty string, so that an empty string cannot be told from an absent
  result. For every other result it returns what the parser makes of it, and raises what
  the parser raises. A timeout is not among these cases: there \<^verbatim>\<open>invoke_method\<close> raises
  \<^verbatim>\<open>TimeoutError\<close> and the call raises it, which an empty string does not do.
\<close>

theorem get_past_purchases_result:
  assumes "check_mobile_platform self = Inr ()"
      and "c = \<lparr> method_name = ''get_past_purchases'', arguments = None,
                 wait_for_result = Some True,
                 wait_timeout = Some (case timeout_arg of None \<Rightarrow> PInt 10 | Some t \<Rightarrow> t) \<rparr>"
  shows "get_past_purchases bridge loads self timeout_arg =
           ((case bridge c of
               Inl e \<Rightarrow> Inl e
             | Inr None \<Rightarrow> Inr (PList [])
             | Inr (Some r) \<Rightarrow> if r = [] then Inr (PList []) else loads r),
            self\<lparr>invoked := invoked self @ [c]\<rparr>)"
  using assms
  by (simp add: get_past_purchases_def invoke_method_def Let_def
        split: sum.split option.split)

text \<open>
  Four instances: a list with one purchase, a response that is not JSON, the empty
  string, and an elapsed wait.
\<close>

theorem get_past_purchases_result_witness:
  "get_past_purchases (bridge_returns (Some ''[{\"productId\": \"coins\"}]'')) loads_table
      \<lparr> page = Some \<lparr> platform = IOS \<rparr>, productIds = None, invoked = [] \<rparr> None
     = (Inr (PList [PDict [(''productId'', PStr ''coins'')]]),
        \<lparr> page = Some \<lparr> platform = IOS \<rparr>, productIds = None,
          invoked = [\<lparr> method_name = ''get_past_purchases'', arguments = None,
                       wait_for_result = Some True, wait_timeout = Some (PInt 10) \<rparr>] \<rparr>)
   \<and> get_past_purchases (bridge_returns (Some ''<html>'')) loads_table
      \<lparr> page = Some \<lparr> platform = IOS \<rparr>, productIds = None, invoked = [] \<rparr> None
     = (Inl (JSONDecodeError ''<html>''),
        \<lparr> page = Some \<lparr> platform = IOS \<rparr>, productIds = None,
          invoked = [\<lparr> method_name = ''get_past_purchases'', arguments = None,
                       wait_for_result = Some True, wait_timeout = Some (PInt 10) \<rparr>] \<rparr>)
   \<and> get_past_purchases (bridge_returns (Some [])) loads_table
      \<lparr> page = Some \<lparr> platform = IOS \<rparr>, productIds = None, invoked = [] \<rparr> None
     = (Inr (PList []),
        \<lparr> page = Some \<lparr> platform = IOS \<rparr>, productIds = None,
          invoked = [\<lparr> method_name = ''get_past_purchases'', arguments = None,
                       wait_for_result = Some True, wait_timeout = Some (PInt 10) \<rparr>] \<rparr>)
   \<and> get_past_purchases
      (bridge_raises (TimeoutError ''Timeout waiting for invokeMethod get_past_purchases(None) call''))
      loads_table
      \<lparr> page = Some \<lparr> platform = IOS \<rparr>, productIds = None, invoked = [] \<rparr> None
     = (Inl (TimeoutError ''Timeout waiting for invokeMethod get_past_purchases(None) call''),
        \<lparr> page = Some \<lparr> platform = IOS \<rparr>, productIds = None,
          invoked = [\<lparr> method_name = ''get_past_purchases'', arguments = None,
                       wait_for_result = Some True, wait_timeout = Some (PInt 10) \<rparr>] \<rparr>)"
  using get_past_purchases_result
          [of "\<lparr> page = Some \<lparr> platform = IOS \<rparr>, productIds = None, invoked = [] \<rparr>"
              "\<lparr> method_name = ''get_past_purchases'', arguments = None,
                 wait_for_result = Some True, wait_timeout = Some (PInt 10) \<rparr>"
              None "bridge_returns (Some ''[{\"productId\": \"coins\"}]'')" loads_table]
        get_past_purchases_result
          [of "\<lparr> page = Some \<lparr> platform = IOS \<rparr>, productIds = None, invoked = [] \<rparr>"
              "\<lparr> method_name = ''get_past_purchases'', arguments = None,
                 wait_for_result = Some True, wait_timeout = Some (PInt 10) \<rparr>"
              None "bridge_returns (Some ''<html>'')" loads_table]
        get_past_purchases_result
          [of "\<lparr> page = Some \<lparr> platform = IOS \<rparr>, productIds = None, invoked = [] \<rparr>"
              "\<lparr> method_name = ''get_past_purchases'', arguments = None,
                 wait_for_result = Some True, wait_timeout = Some (PInt 10) \<rparr>"
              None "bridge_returns (Some [])" loads_table]
        get_past_purchases_result
          [of "\<lparr> page = Some \<lparr> platform = IOS \<rparr>, productIds = None, invoked = [] \<rparr>"
              "\<lparr> method_name = ''get_past_purchases'', arguments = None,
                 wait_for_result = Some True, wait_timeout = Some (PInt 10) \<rparr>"
              None
              "bridge_raises
                 (TimeoutError ''Timeout waiting for invokeMethod get_past_purchases(None) call'')"
              loads_table]
  by (simp add: check_mobile_platform_def bridge_returns_def bridge_raises_def loads_table_def)

text \<open>
  The claim as first stated (an empty-string response is indistinguishable from a
  timeout) fails under a timeout of 5: the empty string gives the empty list, the elapsed
  wait gives \<^verbatim>\<open>TimeoutError\<close>.
\<close>

theorem get_past_purchases_result_counterexample:
  "fst (get_past_purchases (bridge_returns (Some [])) loads_table
        \<lparr> page = Some \<lparr> platform = IOS \<rparr>, productIds = None, invoked = [] \<rparr> (Some (PInt 5)))
     = Inr (PList [])
   \<and> fst (get_past_purchases
        (bridge_raises
           (TimeoutError ''Timeout waiting for invokeMethod get_past_purchases(None) call''))
        loads_table
        \<lparr> page = Some \<lparr> platform = IOS \<rparr>, productIds = None, invoked = [] \<rparr> (Some (PInt 5)))
     = Inl (TimeoutError ''Timeout waiting for invokeMethod get_past_purchases(None) call'')"
  by (simp add: get_past_purchases_def invoke_method_def check_mobile_platform_def
        bridge_returns_def bridge_raises_def Let_def)

end
